theory Spec2Isabelle
  imports Main "HOL-Library.List_Lexorder" "HOL-Library.Char_ord" "HOL-Library.AList"
begin

section \<open>JavaScript values\<close>

text \<open>
  Response payloads and expectations are the values \<open>JSON.parse\<close> produces, together with
  \<open>undefined\<close> (what a read of a missing property gives, and what the response of a
  skipped call is). An object is the list of its own properties in \<open>Object.keys\<close> order;
  the keys of an object are pairwise distinct, and none of them is \<open>__proto__\<close> (which an
  assignment \<open>target[key] = v\<close> would read as the prototype of the target). Numbers carry an
  integer payload: the validators look at \<open>typeof\<close> of a number, at its truthiness and, in
  the last test of \<open>matchesPattern\<close>, at its equality with another value.
\<close>

datatype json =
    JUndefined
  | JNull
  | JBool bool
  | JNum int
  | JStr string
  | JArr "json list"
  | JObj "(string \<times> json) list"

text \<open>The exceptions the modelled code can raise: a \<open>TypeError\<close> of the runtime, or
  \<open>new Error(message)\<close>.\<close>

datatype error = TypeError | Error string

fun typeof :: "json \<Rightarrow> string" where
  "typeof JUndefined = ''undefined''"
| "typeof JNull = ''object''"
| "typeof (JBool b) = ''boolean''"
| "typeof (JNum n) = ''number''"
| "typeof (JStr s) = ''string''"
| "typeof (JArr xs) = ''object''"
| "typeof (JObj kvs) = ''object''"

text \<open>Truthiness, as \<open>!x\<close> and \<open>x && y\<close> read a value.\<close>

fun truthy :: "json \<Rightarrow> bool" where
  "truthy JUndefined = False"
| "truthy JNull = False"
| "truthy (JBool b) = b"
| "truthy (JNum n) = (n \<noteq> 0)"
| "truthy (JStr s) = (s \<noteq> [])"
| "truthy (JArr xs) = True"
| "truthy (JObj kvs) = True"

text \<open>\<open>Object.keys(obj)\<close> and the property read \<open>obj[key]\<close> on an object's own properties.\<close>

definition keys :: "(string \<times> 'a) list \<Rightarrow> string list" where
  "keys kvs = map fst kvs"

definition getprop :: "(string \<times> json) list \<Rightarrow> string \<Rightarrow> json" where
  "getprop kvs key = (case map_of kvs key of Some v \<Rightarrow> v | None \<Rightarrow> JUndefined)"

text \<open>
  \<open>obj.hasOwnProperty(key)\<close> first reads the property \<open>hasOwnProperty\<close> of \<open>obj\<close>. When the
  object has an own property of that name, its value (a parsed JSON value, never a function)
  shadows the inherited method and the call raises a \<open>TypeError\<close>.
\<close>

definition hasOwnProperty :: "(string \<times> json) list \<Rightarrow> string \<Rightarrow> error + bool" where
  "hasOwnProperty obj key =
     (if ''hasOwnProperty'' \<in> set (keys obj) then Inl TypeError
      else Inr (key \<in> set (keys obj)))"

lemma size_getprop [termination_simp]:
  "size (getprop kvs key) \<le> size_list (\<lambda>x. Suc (size (snd x))) kvs"
  by (induction kvs) (auto simp: getprop_def)

lemma size_getprop_double:
  "2 * size (getprop kvs key) < Suc (2 * size_list (size_prod (\<lambda>x. 0) size) kvs)"
  by (induction kvs) (auto simp: getprop_def)

section \<open>The four matching strategies (services/rest/index.ts)\<close>

subsection \<open>Strategy 1: compareStructure\<close>

text \<open>
  The source tests, in this order: \<open>typeof\<close> differs, either side is \<open>null\<close>, not an object,
  \<open>Array.isArray\<close> differs, both arrays, both plain objects. Two arrays and two plain
  objects pass the first four tests, which the first two equations skip; the third
  equation holds every other pair, where the last \<open>else\<close> is the pair of an array and a
  plain object. \<open>compareStructure_every\<close> is
  \<open>obj1.every((item, index) => compareStructure(item, obj2[index]))\<close> on arrays of equal
  length. \<open>sort\<close> stands for \<open>Array.prototype.sort\<close>: a sort of the keys by a total order.
\<close>

fun compareStructure :: "json \<Rightarrow> json \<Rightarrow> bool"
  and compareStructure_every :: "json list \<Rightarrow> json list \<Rightarrow> bool" where
  "compareStructure (JArr xs) (JArr ys) =
     (if length xs \<noteq> length ys then False else compareStructure_every xs ys)"
| "compareStructure (JObj a) (JObj b) =
     (let keys1 = sort (keys a); keys2 = sort (keys b) in
      if length keys1 \<noteq> length keys2 then False
      else if keys1 \<noteq> keys2 then False
      else list_all (\<lambda>key. compareStructure (getprop a key) (getprop b key)) keys1)"
| "compareStructure obj1 obj2 =
     (if typeof obj1 \<noteq> typeof obj2 then False
      else if obj1 = JNull \<or> obj2 = JNull then obj1 = obj2
      else if typeof obj1 \<noteq> ''object'' then True
      else False)"
| "compareStructure_every (x # xs) (y # ys) =
     (compareStructure x y \<and> compareStructure_every xs ys)"
| "compareStructure_every xs ys = True"

subsection \<open>Strategy 2: generateSchema and validateSchema\<close>

text \<open>
  The three shapes of schema object \<open>generateSchema\<close> builds: \<open>{type: t}\<close>,
  \<open>{type: 'array', items}\<close> and \<open>{type: 'object', properties, required}\<close>.
\<close>

datatype schema =
    SType string
  | SArray schema
  | SObject "(string \<times> schema) list" "string list"

fun generateSchema :: "json \<Rightarrow> schema" where
  "generateSchema JNull = SType ''null''"
| "generateSchema (JArr xs) =
     SArray (case xs of [] \<Rightarrow> SType ''any'' | x # rest \<Rightarrow> generateSchema x)"
| "generateSchema (JObj kvs) =
     SObject (map (\<lambda>(key, v). (key, generateSchema v)) kvs) (keys kvs)"
| "generateSchema obj = SType (typeof obj)"

text \<open>\<open>requiredKeys.every(key => obj.hasOwnProperty(key))\<close>: stops at the first \<open>false\<close>,
  and at the first exception.\<close>

fun every_hasOwnProperty :: "(string \<times> json) list \<Rightarrow> string list \<Rightarrow> error + bool" where
  "every_hasOwnProperty obj [] = Inr True"
| "every_hasOwnProperty obj (key # rest) =
     (case hasOwnProperty obj key of
        Inl e \<Rightarrow> Inl e
      | Inr b \<Rightarrow> if b then every_hasOwnProperty obj rest else Inr False)"

text \<open>
  \<open>validateSchema_items\<close> is \<open>obj.every(item => validateSchema(item, schema.items))\<close> and
  \<open>validateSchema_props\<close> is
  \<open>objKeys.every(key => schema.properties[key] && validateSchema(obj[key], schema.properties[key]))\<close>.
  A schema \<open>{type: 'array'}\<close> or \<open>{type: 'object'}\<close> without its other fields (which
  \<open>generateSchema\<close> never builds) makes the source read a field of \<open>undefined\<close>.
  Where \<open>schema.properties\<close> has no own property \<open>key\<close>, the read is \<open>undefined\<close> or a
  member of \<open>Object.prototype\<close>; the callback returns a falsy value in the first case, and
  in the second it compares \<open>typeof\<close> with the \<open>undefined\<close> \<open>type\<close> of that member: the
  iteration stops with \<open>false\<close> either way.
\<close>

function (sequential) validateSchema :: "json \<Rightarrow> schema \<Rightarrow> error + bool"
  and validateSchema_items :: "json list \<Rightarrow> schema \<Rightarrow> error + bool"
  and validateSchema_props ::
    "string list \<Rightarrow> (string \<times> json) list \<Rightarrow> (string \<times> schema) list \<Rightarrow> error + bool" where
  "validateSchema obj (SType t) =
     (if t = ''null'' then Inr (obj = JNull)
      else if t = ''array'' then
        (case obj of JArr [] \<Rightarrow> Inr True | JArr (x # xs) \<Rightarrow> Inl TypeError | _ \<Rightarrow> Inr False)
      else if t = ''object'' then
        (case obj of JObj kvs \<Rightarrow> Inl TypeError | _ \<Rightarrow> Inr False)
      else Inr (typeof obj = t))"
| "validateSchema obj (SArray items) =
     (case obj of JArr xs \<Rightarrow> validateSchema_items xs items | _ \<Rightarrow> Inr False)"
| "validateSchema obj (SObject properties required) =
     (case obj of
        JObj kvs \<Rightarrow>
          (case every_hasOwnProperty kvs required of
             Inl e \<Rightarrow> Inl e
           | Inr b \<Rightarrow>
               if \<not> b then Inr False
               else if length (keys kvs) \<noteq> length (keys properties) then Inr False
               else validateSchema_props (keys kvs) kvs properties)
      | _ \<Rightarrow> Inr False)"
| "validateSchema_items [] items = Inr True"
| "validateSchema_items (item # rest) items =
     (case validateSchema item items of
        Inl e \<Rightarrow> Inl e
      | Inr b \<Rightarrow> if b then validateSchema_items rest items else Inr False)"
| "validateSchema_props [] obj properties = Inr True"
| "validateSchema_props (key # rest) obj properties =
     (case map_of properties key of
        None \<Rightarrow> Inr False
      | Some sub \<Rightarrow>
          (case validateSchema (getprop obj key) sub of
             Inl e \<Rightarrow> Inl e
           | Inr b \<Rightarrow> if b then validateSchema_props rest obj properties else Inr False))"
  by pat_completeness auto
termination
  by (relation "inv_image (less_than <*lex*> less_than)
        (\<lambda>x. case x of
           Inl (obj, s) \<Rightarrow> (2 * size obj + 1, 0)
         | Inr (Inl (xs, s)) \<Rightarrow> (2 * size (JArr xs), 0)
         | Inr (Inr (ks, obj, ps)) \<Rightarrow> (2 * size (JObj obj), length ks))")
     (auto simp: size_getprop_double)

subsection \<open>Strategy 3: createPattern and matchesPattern\<close>

fun createPattern :: "json \<Rightarrow> json" where
  "createPattern JNull = JNull"
| "createPattern (JArr xs) = JArr (map (\<lambda>item. JStr ''*'') xs)"
| "createPattern (JObj kvs) = JObj (map (\<lambda>(key, v). (key, createPattern v)) kvs)"
| "createPattern obj = JStr ''*''"

fun matchesPattern :: "json \<Rightarrow> json \<Rightarrow> bool"
  and matchesPattern_every :: "json list \<Rightarrow> json list \<Rightarrow> bool" where
  "matchesPattern obj (JArr ps) =
     (case obj of
        JArr xs \<Rightarrow> if length xs \<noteq> length ps then False else matchesPattern_every xs ps
      | _ \<Rightarrow> False)"
| "matchesPattern obj (JObj p) =
     (case obj of
        JObj kvs \<Rightarrow>
          (let patternKeys = sort (keys p); objKeys = sort (keys kvs) in
           if length patternKeys \<noteq> length objKeys then False
           else if patternKeys \<noteq> objKeys then False
           else list_all (\<lambda>key. matchesPattern (getprop kvs key) (getprop p key)) patternKeys)
      | _ \<Rightarrow> False)"
| "matchesPattern obj pattern =
     (if pattern = JStr ''*'' then True
      else if pattern = JNull then obj = JNull
      else obj = pattern)"
| "matchesPattern_every (x # xs) (p # ps) = (matchesPattern x p \<and> matchesPattern_every xs ps)"
| "matchesPattern_every xs ps = True"

subsection \<open>Strategy 4: compareFlexible\<close>

record options =
  ignoreArrayOrder :: bool
  allowExtraFields :: bool
  typeStrict :: bool

text \<open>
  The inner function \<open>compare(actual, expected)\<close>, with the options it closes over.
  \<open>compare_every\<close> is the positional \<open>every\<close>, \<open>compare_some\<close> is
  \<open>actual.some(actualItem => compare(actualItem, expectedItem))\<close>, \<open>compare_every_some\<close>
  the \<open>every\<close> around it, and \<open>compare_keys\<close> the \<open>every\<close> over \<open>expectedKeys\<close>.
\<close>

function (sequential) compare :: "options \<Rightarrow> json \<Rightarrow> json \<Rightarrow> error + bool"
  and compare_every :: "options \<Rightarrow> json list \<Rightarrow> json list \<Rightarrow> error + bool"
  and compare_some :: "options \<Rightarrow> json list \<Rightarrow> json \<Rightarrow> error + bool"
  and compare_every_some :: "options \<Rightarrow> json list \<Rightarrow> json list \<Rightarrow> error + bool"
  and compare_keys ::
    "options \<Rightarrow> (string \<times> json) list \<Rightarrow> (string \<times> json) list \<Rightarrow> string list \<Rightarrow> error + bool" where
  "compare opts actual JNull = Inr (actual = JNull)"
| "compare opts actual (JArr es) =
     (case actual of
        JArr xs \<Rightarrow>
          if ignoreArrayOrder opts then
            (if length es = length xs then compare_every_some opts xs es else Inr False)
          else
            (if length es = length xs then compare_every opts xs es else Inr False)
      | _ \<Rightarrow> Inr False)"
| "compare opts actual (JObj e) =
     (case actual of
        JObj a \<Rightarrow>
          if \<not> allowExtraFields opts \<and> length (keys e) \<noteq> length (keys a) then Inr False
          else compare_keys opts a e (keys e)
      | _ \<Rightarrow> Inr False)"
| "compare opts actual expected =
     (if actual = JNull then Inr False
      else if typeStrict opts then Inr (typeof actual = typeof expected)
      else Inr True)"
| "compare_every opts (x # xs) (e # es) =
     (case compare opts x e of
        Inl err \<Rightarrow> Inl err
      | Inr b \<Rightarrow> if b then compare_every opts xs es else Inr False)"
| "compare_every opts xs es = Inr True"
| "compare_some opts [] e = Inr False"
| "compare_some opts (x # xs) e =
     (case compare opts x e of
        Inl err \<Rightarrow> Inl err
      | Inr b \<Rightarrow> if b then Inr True else compare_some opts xs e)"
| "compare_every_some opts xs [] = Inr True"
| "compare_every_some opts xs (e # es) =
     (case compare_some opts xs e of
        Inl err \<Rightarrow> Inl err
      | Inr b \<Rightarrow> if b then compare_every_some opts xs es else Inr False)"
| "compare_keys opts a e [] = Inr True"
| "compare_keys opts a e (key # rest) =
     (case hasOwnProperty a key of
        Inl err \<Rightarrow> Inl err
      | Inr has \<Rightarrow>
          if \<not> has then Inr False
          else (case compare opts (getprop a key) (getprop e key) of
                  Inl err \<Rightarrow> Inl err
                | Inr b \<Rightarrow> if b then compare_keys opts a e rest else Inr False))"
  by pat_completeness auto
termination
  by (relation "inv_image (less_than <*lex*> less_than)
        (\<lambda>x. case x of
           Inl (Inl (opts, actual, expected)) \<Rightarrow> (2 * size expected + 1, 0)
         | Inl (Inr (opts, xs, es)) \<Rightarrow> (2 * size (JArr es), 0)
         | Inr (Inl (opts, xs, e)) \<Rightarrow> (2 * size e + 1, Suc (length xs))
         | Inr (Inr (Inl (opts, xs, es))) \<Rightarrow> (2 * size (JArr es), 0)
         | Inr (Inr (Inr (opts, a, e, ks))) \<Rightarrow> (2 * size (JObj e), length ks))")
     (auto simp: size_getprop_double)

definition compareFlexible :: "json \<Rightarrow> json \<Rightarrow> options \<Rightarrow> error + bool" where
  "compareFlexible response expected opts = compare opts response expected"

section \<open>Service descriptors (types)\<close>

text \<open>
  \<open>EnvironmentType\<close> is the union of the string literals \<open>DEV\<close>, \<open>QA\<close>, \<open>SIT\<close>, \<open>UAT\<close> and
  \<open>PROD\<close>; it is erased at run time, where an environment is the string itself.
\<close>

type_synonym EnvironmentType = string

datatype ServiceType = REST | SOAP

text \<open>A value of \<open>headerEnvVars\<close>: \<open>string | string[]\<close>.\<close>

datatype env_var_names = Single string | Many "string list"

text \<open>
  \<open>BaseService\<close> with the fields of \<open>RestService\<close> that the resolver and the validators
  read. An optional field is an \<open>option\<close>. The fields only the transport clients read
  (\<open>method\<close>, \<open>body\<close>, \<open>timeout\<close>, \<open>args\<close>, \<open>options\<close>, \<open>xmlBody\<close>, \<open>soapAction\<close>) are left out.
  The REST validator reads \<open>expectedContent\<close> as an arbitrary value, so it is a \<open>json\<close>.
\<close>

record Service =
  service_id :: string
  name :: string
  service_type :: ServiceType
  enabled :: "bool option"
  url :: "string option"
  baseUrl :: "string option"
  path :: "string option"
  urlEnvVar :: "string option"
  baseUrlEnvVar :: "string option"
  environmentUrls :: "(EnvironmentType \<times> string) list option"
  headers :: "(string \<times> string) list option"
  headerEnvVars :: "(string \<times> env_var_names) list option"
  expectedContent :: "json option"
  environment :: "EnvironmentType option"
  expectedStatus :: "int option"

record AxiosResponse =
  status :: int
  data :: json

section \<open>Response validation\<close>

subsection \<open>validateRestResponse (services/rest/index.ts)\<close>

text \<open>
  The body of the \<open>try\<close> block: the four strategies in their order. An exception of a
  strategy leaves the block. After the fourth strategy has failed, the block logs
  \<open>Object.keys(responseData)\<close>, which raises on \<open>null\<close> and \<open>undefined\<close>.
\<close>

text \<open>The options literal of the fourth strategy, \<open>{typeStrict: false, allowExtraFields: false}\<close>,
  with the default \<open>ignoreArrayOrder = false\<close> of \<open>compareFlexible\<close>.\<close>

definition strategyOptions :: options where
  "strategyOptions = \<lparr>ignoreArrayOrder = False, allowExtraFields = False, typeStrict = False\<rparr>"

definition validateStrategies :: "json \<Rightarrow> json \<Rightarrow> error + bool" where
  "validateStrategies responseData expectedStructure =
     (if compareStructure responseData expectedStructure then Inr True
      else
        (case validateSchema responseData (generateSchema expectedStructure) of
           Inl e \<Rightarrow> Inl e
         | Inr schemaOk \<Rightarrow>
             if schemaOk then Inr True
             else if matchesPattern responseData (createPattern expectedStructure) then Inr True
             else
               (case compareFlexible responseData expectedStructure strategyOptions of
                  Inl e \<Rightarrow> Inl e
                | Inr flexibleOk \<Rightarrow>
                    if flexibleOk then Inr True
                    else if responseData = JNull \<or> responseData = JUndefined then Inl TypeError
                    else Inr False)))"

text \<open>\<open>service.expectedContent\<close> when it is declared and truthy, and
  \<open>service.expectedStatus\<close> likewise.\<close>

definition declaredContent :: "Service \<Rightarrow> json option" where
  "declaredContent service =
     (case expectedContent service of
        Some c \<Rightarrow> if truthy c then Some c else None
      | None \<Rightarrow> None)"

definition declaredStatus :: "Service \<Rightarrow> int option" where
  "declaredStatus service =
     (case expectedStatus service of
        Some n \<Rightarrow> if n \<noteq> 0 then Some n else None
      | None \<Rightarrow> None)"

text \<open>
  The response is \<open>None\<close> when the caller skipped the request (\<open>response\<close> is then
  \<open>undefined\<close>): reading \<open>response.status\<close> raises outside the \<open>try\<close> block, reading
  \<open>response.data\<close> raises inside it. The single \<open>catch\<close> around the block turns every
  exception raised in it into the verdict \<open>false\<close>.
\<close>

definition validateRestResponse :: "Service \<Rightarrow> AxiosResponse option \<Rightarrow> error + bool" where
  "validateRestResponse service response =
     (case response of
        None \<Rightarrow>
          (case declaredStatus service of
             Some n \<Rightarrow> Inl TypeError
           | None \<Rightarrow>
               (case declaredContent service of
                  None \<Rightarrow> Inr True
                | Some expectedStructure \<Rightarrow> Inr False))
      | Some r \<Rightarrow>
          if (case declaredStatus service of Some n \<Rightarrow> status r \<noteq> n | None \<Rightarrow> False)
          then Inr False
          else
            (case declaredContent service of
               None \<Rightarrow> Inr True
             | Some expectedStructure \<Rightarrow>
                 (case validateStrategies (data r) expectedStructure of
                    Inl e \<Rightarrow> Inr False
                  | Inr verdict \<Rightarrow> Inr verdict)))"

subsection \<open>validateSoapResponse (services/soap/index.ts)\<close>

text \<open>
  The property read \<open>response.name\<close> on a value that is neither \<open>null\<close> nor \<open>undefined\<close>,
  for a name that no built-in prototype defines: an own property of an object, and
  \<open>undefined\<close> on every other value.
\<close>

definition readprop :: "json \<Rightarrow> string \<Rightarrow> json" where
  "readprop v key = (case v of JObj kvs \<Rightarrow> getprop kvs key | _ \<Rightarrow> JUndefined)"

text \<open>
  The library call \<open>JSON.stringify(response).includes(service.expectedContent)\<close> is the
  parameter \<open>stringify_includes\<close>; \<open>JSON.stringify(undefined)\<close> is \<open>undefined\<close>, whose
  \<open>includes\<close> raises. The fault test reads four properties of the response, which raises
  on \<open>null\<close> and \<open>undefined\<close>.
\<close>

definition validateSoapResponse ::
    "(json \<Rightarrow> json \<Rightarrow> bool) \<Rightarrow> Service \<Rightarrow> json \<Rightarrow> error + bool" where
  "validateSoapResponse stringify_includes service response =
     (case (case declaredContent service of
              None \<Rightarrow> Inr True
            | Some content \<Rightarrow>
                if response = JUndefined then Inl TypeError
                else Inr (stringify_includes response content)) of
        Inl e \<Rightarrow> Inl e
      | Inr contains \<Rightarrow>
          if \<not> contains then Inr False
          else if response = JNull \<or> response = JUndefined then Inl TypeError
          else if truthy (readprop response ''Fault'') \<or> truthy (readprop response ''fault'')
                  \<or> truthy (readprop response ''error'') \<or> truthy (readprop response ''Error'')
          then Inr False
          else Inr True)"

section \<open>Configuration resolver (processEnvironmentVariables)\<close>

text \<open>
  \<open>process.env\<close> maps names to strings. A string read in a condition is truthy when it is
  present and not empty; \<open>nonempty\<close> is that reading of an optional string, and \<open>env_var\<close>
  is \<open>process.env[name]\<close> read that way.
\<close>

type_synonym process_env = "string \<Rightarrow> string option"

definition nonempty :: "string option \<Rightarrow> string option" where
  "nonempty x = (case x of Some s \<Rightarrow> if s = [] then None else Some s | None \<Rightarrow> None)"

definition env_var :: "process_env \<Rightarrow> string \<Rightarrow> string option" where
  "env_var penv var = nonempty (penv var)"

text \<open>\<open>environment || process.env.ENVIRONMENT || 'SIT'\<close>, for the requested environment
  (the optional parameter \<open>environment\<close> of the source).\<close>

definition currentEnvironment :: "process_env \<Rightarrow> EnvironmentType option \<Rightarrow> EnvironmentType" where
  "currentEnvironment penv requested =
     (case nonempty requested of
        Some e \<Rightarrow> e
      | None \<Rightarrow> (case env_var penv ''ENVIRONMENT'' of Some e \<Rightarrow> e | None \<Rightarrow> ''SIT''))"

subsection \<open>The filter\<close>

definition hasEnvironmentUrl :: "Service \<Rightarrow> EnvironmentType \<Rightarrow> bool" where
  "hasEnvironmentUrl service env =
     (case environmentUrls service of
        None \<Rightarrow> False
      | Some urls \<Rightarrow> env \<in> set (keys urls))"

definition isIncluded :: "EnvironmentType \<Rightarrow> Service \<Rightarrow> bool" where
  "isIncluded env service =
     ((hasEnvironmentUrl service env
       \<or> nonempty (environment service) = None
       \<or> environment service = Some env)
      \<and> enabled service \<noteq> Some False)"

subsection \<open>The URL\<close>

fun startsWith :: "string \<Rightarrow> string \<Rightarrow> bool" where
  "startsWith s [] = True"
| "startsWith [] (c # cs) = False"
| "startsWith (x # xs) (c # cs) = (x = c \<and> startsWith xs cs)"

fun str_includes :: "string \<Rightarrow> string \<Rightarrow> bool" where
  "str_includes [] t = (t = [])"
| "str_includes (x # xs) t = (startsWith (x # xs) t \<or> str_includes xs t)"

definition endsWithSlash :: "string \<Rightarrow> bool" where
  "endsWithSlash s = (s \<noteq> [] \<and> last s = CHR ''/'')"

text \<open>
  The join both URL branches of the source write out: \<open>slice(0, -1)\<close> on a base that ends
  with a slash, \<open>slice(1)\<close> on a path that starts with one, and a slash between the two.
\<close>

definition joinBaseAndPath :: "string \<Rightarrow> string \<Rightarrow> string" where
  "joinBaseAndPath base p =
     (let base' = (if endsWithSlash base then butlast base else base);
          p' = (if startsWith p ''/'' then tl p else p)
      in base' @ ''/'' @ p')"

text \<open>
  The value \<open>processedService.url\<close> ends with. The copy \<open>{...service}\<close> starts with the
  declared \<open>url\<close>, which stays when no branch assigns it.
\<close>

definition resolveUrl :: "process_env \<Rightarrow> EnvironmentType \<Rightarrow> Service \<Rightarrow> string option" where
  "resolveUrl penv env service =
     (case nonempty (case environmentUrls service of
                       None \<Rightarrow> None
                     | Some urls \<Rightarrow> map_of urls env) of
        Some envUrlValue \<Rightarrow>
          (let u = (case env_var penv envUrlValue of Some v \<Rightarrow> v | None \<Rightarrow> envUrlValue)
           in case nonempty (path service) of
                Some p \<Rightarrow> Some (joinBaseAndPath u p)
              | None \<Rightarrow> Some u)
      | None \<Rightarrow>
          (case (case nonempty (urlEnvVar service) of
                   None \<Rightarrow> None
                 | Some var \<Rightarrow> env_var penv var) of
             Some v \<Rightarrow> Some v
           | None \<Rightarrow>
               if nonempty (baseUrl service) \<noteq> None \<or> nonempty (path service) \<noteq> None then
                 (let declared = (case nonempty (baseUrl service) of Some b \<Rightarrow> b | None \<Rightarrow> []);
                      base = (case (case nonempty (baseUrlEnvVar service) of
                                      None \<Rightarrow> None
                                    | Some var \<Rightarrow> env_var penv var) of
                                Some v \<Rightarrow> v
                              | None \<Rightarrow> declared)
                  in case nonempty (path service) of
                       Some p \<Rightarrow> if base \<noteq> [] then Some (joinBaseAndPath base p) else Some p
                     | None \<Rightarrow> if base \<noteq> [] then Some base else url service)
               else url service))"

subsection \<open>The headers\<close>

text \<open>
  A value of \<open>headerEnvVars\<close> read in a condition, and used as a property name of
  \<open>process.env\<close> (an array is coerced to its elements joined by commas).
\<close>

fun truthyNames :: "env_var_names \<Rightarrow> bool" where
  "truthyNames (Single var) = (var \<noteq> [])"
| "truthyNames (Many vars) = True"

fun joinComma :: "string list \<Rightarrow> string" where
  "joinComma [] = []"
| "joinComma [v] = v"
| "joinComma (v # rest) = v @ '','' @ joinComma rest"

fun asPropertyName :: "env_var_names \<Rightarrow> string" where
  "asPropertyName (Single var) = var"
| "asPropertyName (Many vars) = joinComma vars"

text \<open>The two loops over an array of candidate names: the first hit wins.\<close>

fun firstEnvSpecific :: "process_env \<Rightarrow> EnvironmentType \<Rightarrow> string list \<Rightarrow> string option" where
  "firstEnvSpecific penv env [] = None"
| "firstEnvSpecific penv env (envVar # rest) =
     (case env_var penv (envVar @ ''_'' @ env) of
        Some v \<Rightarrow> Some v
      | None \<Rightarrow> firstEnvSpecific penv env rest)"

fun firstPlain :: "process_env \<Rightarrow> string list \<Rightarrow> string option" where
  "firstPlain penv [] = None"
| "firstPlain penv (envVar # rest) =
     (case env_var penv envVar of
        Some v \<Rightarrow> Some v
      | None \<Rightarrow> firstPlain penv rest)"

text \<open>
  One iteration of the \<open>forEach\<close> over \<open>Object.entries(service.headerEnvVars)\<close>, as a
  function from the header object before it to the header object after it. The header
  object is an association list in insertion order: an assignment is \<open>AList.update\<close>, a
  \<open>delete\<close> is \<open>AList.delete\<close>. The copy \<open>{...service}\<close> is shallow, so when the descriptor
  declares \<open>headers\<close>, \<open>service.headers\<close> and \<open>processedService.headers\<close> are one object and
  \<open>service.headers[...]\<close> reads the current header object; when it declares none,
  \<open>service.headers\<close> stays \<open>undefined\<close>.

  Two tests of the iteration have a name of their own. \<open>legacyHeaderDeclared\<close> is the
  first test, \<open>service.headers && service.headers[envSpecificHeaderKey]\<close> with
  \<open>envSpecificHeaderKey = `NAME_API_KEY_${currentEnvironment}`\<close>. \<open>legacyNamedVariable\<close> is
  the value the third branch assigns before it returns: the header key does not contain
  \<open>envSpecificHeaderKey\<close>, \<open>service.headerEnvVars[envSpecificHeaderKey]\<close> is a non-empty
  string, and the environment variable of that name is set.
\<close>

definition legacyHeaderDeclared ::
    "Service \<Rightarrow> EnvironmentType \<Rightarrow> (string \<times> string) list \<Rightarrow> bool" where
  "legacyHeaderDeclared service env hdrs =
     (headers service \<noteq> None \<and> nonempty (map_of hdrs (''NAME_API_KEY_'' @ env)) \<noteq> None)"

definition legacyNamedVariable ::
    "process_env \<Rightarrow> EnvironmentType \<Rightarrow> Service \<Rightarrow> string \<Rightarrow> string option" where
  "legacyNamedVariable penv env service headerKey =
     (if str_includes headerKey (''NAME_API_KEY_'' @ env) then None
      else (case map_of (case headerEnvVars service of Some h \<Rightarrow> h | None \<Rightarrow> [])
                   (''NAME_API_KEY_'' @ env) of
              Some (Single var) \<Rightarrow> if var \<noteq> [] then env_var penv var else None
            | _ \<Rightarrow> None))"

definition processHeaderEntry ::
    "process_env \<Rightarrow> EnvironmentType \<Rightarrow> Service \<Rightarrow> string \<times> env_var_names
       \<Rightarrow> (string \<times> string) list \<Rightarrow> (string \<times> string) list" where
  "processHeaderEntry penv env service entry hdrs =
     (let headerKey = fst entry;
          envVarName = snd entry;
          declaredNames = (case headerEnvVars service of Some h \<Rightarrow> h | None \<Rightarrow> []);
          finalHeaderKey = (case env_var penv headerKey of Some v \<Rightarrow> v | None \<Rightarrow> headerKey);
          envSpecificHeaderKey = ''NAME_API_KEY_'' @ env;
          envSpecificHeaderValue = ''API_KEY_'' @ env
      in
        if legacyHeaderDeclared service env hdrs then
          (if startsWith headerKey ''NAME_'' then
             (let apiKeyValue =
                    (case map_of declaredNames envSpecificHeaderKey of
                       None \<Rightarrow> ''XXXX valor''
                     | Some names \<Rightarrow>
                         if truthyNames names then
                           (case env_var penv (asPropertyName names) of
                              Some v \<Rightarrow> v
                            | None \<Rightarrow> ''XXXX valor'')
                         else ''XXXX valor'')
              in AList.update finalHeaderKey apiKeyValue
                   (AList.delete envSpecificHeaderKey (AList.delete headerKey hdrs)))
           else AList.update envSpecificHeaderKey envSpecificHeaderValue hdrs)
        else
          (case legacyNamedVariable penv env service headerKey of
             Some v \<Rightarrow> AList.update finalHeaderKey v hdrs
           | None \<Rightarrow>
               (let finalHeaderKey =
                      (if str_includes headerKey envSpecificHeaderKey then headerKey
                       else finalHeaderKey)
                in case envVarName of
                     Single var \<Rightarrow>
                       (case env_var penv (var @ ''_'' @ env) of
                          Some v \<Rightarrow> AList.update finalHeaderKey v hdrs
                        | None \<Rightarrow>
                            (case env_var penv var of
                               Some v \<Rightarrow> AList.update finalHeaderKey v hdrs
                             | None \<Rightarrow> hdrs))
                   | Many vars \<Rightarrow>
                       (case firstEnvSpecific penv env vars of
                          Some v \<Rightarrow> AList.update finalHeaderKey v hdrs
                        | None \<Rightarrow>
                            (case firstPlain penv vars of
                               Some v \<Rightarrow> AList.update finalHeaderKey v hdrs
                             | None \<Rightarrow> hdrs)))))"

definition resolveHeaders ::
    "process_env \<Rightarrow> EnvironmentType \<Rightarrow> Service \<Rightarrow> (string \<times> string) list option" where
  "resolveHeaders penv env service =
     (case headerEnvVars service of
        None \<Rightarrow> headers service
      | Some entries \<Rightarrow>
          Some (fold (processHeaderEntry penv env service) entries
                  (case headers service of Some h \<Rightarrow> h | None \<Rightarrow> [])))"

text \<open>The function mapped over the filtered catalog, and the whole pass.\<close>

definition processService :: "process_env \<Rightarrow> EnvironmentType \<Rightarrow> Service \<Rightarrow> Service" where
  "processService penv env service =
     service\<lparr>url := resolveUrl penv env service, headers := resolveHeaders penv env service\<rparr>"

definition processEnvironmentVariables ::
    "process_env \<Rightarrow> Service list \<Rightarrow> EnvironmentType option \<Rightarrow> Service list" where
  "processEnvironmentVariables penv catalogue requested =
     (let env = currentEnvironment penv requested
      in map (processService penv env) (filter (isIncluded env) catalogue))"

section \<open>Check orchestrator (services/index.ts)\<close>

datatype Status = Success | Failed

text \<open>The \<open>details\<close> of a row: \<open>'Service is healthy'\<close>, \<open>'Service response validation
  failed'\<close>, or \<open>'Error: '\<close> followed by the message of the exception caught.\<close>

datatype Details = Healthy | ValidationFailed | ErrorDetails error

text \<open>\<open>ServiceResult\<close> without its two clock readings (\<open>responseTime\<close>, \<open>timestamp\<close>).\<close>

record ServiceResult =
  result_id :: string
  result_name :: string
  result_type :: ServiceType
  result_url :: "string option"
  result_status :: Status
  statusCode :: "int option"
  details :: Details
  result_response :: "json option"

record Summary =
  total :: int
  success :: int
  failed :: int

record CheckResults =
  results_environment :: EnvironmentType
  services :: "ServiceResult list"
  summary :: Summary

text \<open>
  What the code reaches outside itself: the process environment, the catalog that reading
  and parsing the configuration file (or the built-in example) gives, or the exception
  that raises, the HTTP client, the SOAP client, and the library call of the SOAP
  validator.
\<close>

record World =
  processEnv :: process_env
  catalog :: "error + Service list"
  axios :: "Service \<Rightarrow> error + AxiosResponse"
  soapCall :: "Service \<Rightarrow> error + json"
  stringifyIncludes :: "json \<Rightarrow> json \<Rightarrow> bool"

definition getServiceConfig :: "World \<Rightarrow> EnvironmentType option \<Rightarrow> error + Service list" where
  "getServiceConfig world requested =
     (case catalog world of
        Inl e \<Rightarrow> Inl (Error ''Failed to load service configuration'')
      | Inr loaded \<Rightarrow> Inr (processEnvironmentVariables (processEnv world) loaded requested))"

definition makeRestRequest :: "World \<Rightarrow> Service \<Rightarrow> error + AxiosResponse" where
  "makeRestRequest world service =
     (case nonempty (url service) of
        None \<Rightarrow> Inl (Error ''URL is required for REST service'')
      | Some u \<Rightarrow> axios world service)"

definition makeSoapRequest :: "World \<Rightarrow> Service \<Rightarrow> error + json" where
  "makeSoapRequest world service =
     (case nonempty (url service) of
        None \<Rightarrow> Inl (Error ''URL is required for SOAP service'')
      | Some u \<Rightarrow> soapCall world service)"

text \<open>\<open>name.replace(/\s+/g, '-').toLowerCase()\<close>, on ASCII white space and ASCII letters.\<close>

definition isSpace :: "char \<Rightarrow> bool" where
  "isSpace c = (c \<in> set [CHR '' '', CHR 0x09, CHR 0x0A, CHR 0x0B, CHR 0x0C, CHR 0x0D])"

fun replaceSpaces_from :: "bool \<Rightarrow> string \<Rightarrow> string" where
  "replaceSpaces_from inRun [] = []"
| "replaceSpaces_from inRun (c # cs) =
     (if isSpace c then
        (if inRun then replaceSpaces_from True cs else CHR ''-'' # replaceSpaces_from True cs)
      else c # replaceSpaces_from False cs)"

definition replaceSpaces :: "string \<Rightarrow> string" where
  "replaceSpaces s = replaceSpaces_from False s"

definition toLowerCase_char :: "char \<Rightarrow> char" where
  "toLowerCase_char c =
     (case map_of (zip ''ABCDEFGHIJKLMNOPQRSTUVWXYZ'' ''abcdefghijklmnopqrstuvwxyz'') c of
        Some l \<Rightarrow> l
      | None \<Rightarrow> c)"

definition toLowerCase :: "string \<Rightarrow> string" where
  "toLowerCase s = map toLowerCase_char s"

text \<open>The row the \<open>catch\<close> block of either loop pushes.\<close>

definition failedRow :: "ServiceType \<Rightarrow> Service \<Rightarrow> error \<Rightarrow> ServiceResult" where
  "failedRow t service e =
     \<lparr>result_id = service_id service, result_name = name service, result_type = t,
      result_url = url service, result_status = Failed, statusCode = None,
      details = ErrorDetails e, result_response = None\<rparr>"

text \<open>
  One iteration of the loop of \<open>checkRestServices\<close>. A disabled service is not requested:
  its response stays \<open>undefined\<close>, and reading \<open>response.status\<close> for the row raises.
\<close>

definition checkRestService ::
    "World \<Rightarrow> (string \<Rightarrow> bool option) \<Rightarrow> Service \<Rightarrow> ServiceResult" where
  "checkRestService world disabledServicesList service =
     (let serviceId = (if service_id service \<noteq> [] then service_id service
                       else toLowerCase (replaceSpaces (name service)));
          isServiceDisabled = (disabledServicesList serviceId = Some True)
      in
        case (if \<not> isServiceDisabled then
                (case makeRestRequest world service of
                   Inl e \<Rightarrow> Inl e
                 | Inr r \<Rightarrow> Inr (Some r))
              else Inr None) of
          Inl e \<Rightarrow> failedRow REST service e
        | Inr resp \<Rightarrow>
            (case validateRestResponse service resp of
               Inl e \<Rightarrow> failedRow REST service e
             | Inr isValid \<Rightarrow>
                 (case resp of
                    None \<Rightarrow> failedRow REST service TypeError
                  | Some r \<Rightarrow>
                      \<lparr>result_id = service_id service, result_name = name service,
                       result_type = REST, result_url = url service,
                       result_status = (if isValid then Success else Failed),
                       statusCode = Some (status r),
                       details = (if isValid then Healthy else ValidationFailed),
                       result_response = Some (data r)\<rparr>)))"

definition checkRestServices ::
    "World \<Rightarrow> Service list \<Rightarrow> (string \<Rightarrow> bool option) \<Rightarrow> ServiceResult list" where
  "checkRestServices world restServices disabledServicesList =
     map (checkRestService world disabledServicesList) restServices"

definition checkSoapService :: "World \<Rightarrow> Service \<Rightarrow> ServiceResult" where
  "checkSoapService world service =
     (case makeSoapRequest world service of
        Inl e \<Rightarrow> failedRow SOAP service e
      | Inr resp \<Rightarrow>
          (case validateSoapResponse (stringifyIncludes world) service resp of
             Inl e \<Rightarrow> failedRow SOAP service e
           | Inr isValid \<Rightarrow>
               \<lparr>result_id = service_id service, result_name = name service,
                result_type = SOAP, result_url = url service,
                result_status = (if isValid then Success else Failed),
                statusCode = None,
                details = (if isValid then Healthy else ValidationFailed),
                result_response = Some resp\<rparr>))"

definition checkSoapServices :: "World \<Rightarrow> Service list \<Rightarrow> ServiceResult list" where
  "checkSoapServices world soapServices = map (checkSoapService world) soapServices"

definition checkAllServices ::
    "World \<Rightarrow> string option \<Rightarrow> EnvironmentType option \<Rightarrow> (string \<Rightarrow> bool option)
       \<Rightarrow> error + CheckResults" where
  "checkAllServices world serviceId requested disabledServicesList =
     (let env = currentEnvironment (processEnv world) requested
      in case getServiceConfig world (Some env) of
           Inl e \<Rightarrow> Inl e
         | Inr config \<Rightarrow>
             (let servicesToCheck =
                    (case nonempty serviceId of
                       Some wanted \<Rightarrow> filter (\<lambda>service. service_id service = wanted) config
                     | None \<Rightarrow> config)
              in
                if nonempty serviceId \<noteq> None \<and> length servicesToCheck = 0
                then Inl (Error ''Service not found'')
                else
                  (let restServices = filter (\<lambda>service. service_type service = REST) servicesToCheck;
                       afterRest = (if length restServices > 0
                                    then [] @ checkRestServices world restServices disabledServicesList
                                    else []);
                       soapServices = filter (\<lambda>service. service_type service = SOAP) servicesToCheck;
                       afterSoap = (if length soapServices > 0
                                    then afterRest @ checkSoapServices world soapServices
                                    else afterRest);
                       totalCount = int (length afterSoap);
                       successCount =
                         int (length (filter (\<lambda>s. result_status s = Success) afterSoap))
                   in Inr \<lparr>results_environment = env, services = afterSoap,
                            summary = \<lparr>total = totalCount, success = successCount,
                                       failed = totalCount - successCount\<rparr>\<rparr>)))"

section \<open>Notions used to state the properties\<close>

text \<open>A non-object, non-null value: \<open>undefined\<close>, a boolean, a number or a string.\<close>

definition isPrimitive :: "json \<Rightarrow> bool" where
  "isPrimitive v =
     (case v of JArr xs \<Rightarrow> False | JObj kvs \<Rightarrow> False | JNull \<Rightarrow> False | _ \<Rightarrow> True)"

text \<open>A descriptor that declares its id, name and type and nothing else; the concrete
  descriptors of the examples below are updates of it.\<close>

definition plainService :: "string \<Rightarrow> ServiceType \<Rightarrow> Service" where
  "plainService i t =
     \<lparr>service_id = i, name = i, service_type = t, enabled = None, url = None,
      baseUrl = None, path = None, urlEnvVar = None, baseUrlEnvVar = None,
      environmentUrls = None, headers = None, headerEnvVars = None,
      expectedContent = None, environment = None, expectedStatus = None\<rparr>"

text \<open>A top-level key that names a fault or an error, compared without regard to case.\<close>

definition isFaultIndicatorKey :: "string \<Rightarrow> bool" where
  "isFaultIndicatorKey key = (toLowerCase key = ''fault'' \<or> toLowerCase key = ''error'')"

text \<open>The expectation and the response of the shadowing example: the response has an own
  property named \<open>hasOwnProperty\<close>, and under \<open>a\<close> an array whose element is an object
  where the expectation has a number.\<close>

definition shadowExpected :: json where
  "shadowExpected = JObj [(''hasOwnProperty'', JNum 1), (''a'', JArr [JNum 1])]"

definition shadowActual :: json where
  "shadowActual = JObj [(''hasOwnProperty'', JNum 1), (''a'', JArr [JObj [(''x'', JNum 1)]])]"

text \<open>
  The inclusion test in the words of the specification: the descriptor declares an
  \<open>environmentUrls\<close> entry for the environment, or declares no \<open>environment\<close> pin, or its
  pin is the environment; and its \<open>enabled\<close> flag is not explicitly \<open>false\<close>.
\<close>

definition declaresEnvironmentUrl :: "Service \<Rightarrow> EnvironmentType \<Rightarrow> bool" where
  "declaresEnvironmentUrl service env =
     (case environmentUrls service of
        Some urls \<Rightarrow> env \<in> fst ` set urls
      | None \<Rightarrow> False)"

definition includedForEnvironment :: "EnvironmentType \<Rightarrow> Service \<Rightarrow> bool" where
  "includedForEnvironment env service =
     ((declaresEnvironmentUrl service env
       \<or> environment service = None
       \<or> environment service = Some env)
      \<and> enabled service \<noteq> Some False)"

text \<open>The header name an iteration assigns when it takes neither legacy branch: the header
  key itself when it contains \<open>NAME_API_KEY_<ENV>\<close>, else the value of the environment
  variable named like the header key when one is set, else the header key.\<close>

definition effectiveHeaderName :: "process_env \<Rightarrow> EnvironmentType \<Rightarrow> string \<Rightarrow> string" where
  "effectiveHeaderName penv env headerKey =
     (if str_includes headerKey (''NAME_API_KEY_'' @ env) then headerKey
      else (case env_var penv headerKey of Some v \<Rightarrow> v | None \<Rightarrow> headerKey))"

text \<open>Concrete catalogs, descriptors and environments of the examples.\<close>

definition catalogueExample :: "Service list" where
  "catalogueExample =
     [(plainService ''pinned-dev'' REST)\<lparr>environment := Some ''DEV''\<rparr>,
      (plainService ''pinned-dev-with-uat-url'' REST)
         \<lparr>environment := Some ''DEV'', environmentUrls := Some [(''UAT'', ''https://uat.example.com'')]\<rparr>,
      (plainService ''unpinned'' SOAP),
      (plainService ''disabled'' REST)\<lparr>enabled := Some False\<rparr>,
      (plainService ''pinned-uat'' REST)\<lparr>environment := Some ''UAT'', enabled := Some True\<rparr>]"

definition precedenceService :: Service where
  "precedenceService =
     (plainService ''svc'' REST)
       \<lparr>environmentUrls := Some [(''UAT'', ''SVC_URL_UAT''), (''DEV'', ''https://dev.example.com/'')],
        urlEnvVar := Some ''SVC_URL'', path := Some ''/v1/ping''\<rparr>"

definition precedenceEnv :: process_env where
  "precedenceEnv = [''SVC_URL'' \<mapsto> ''https://complete.example.com/x'',
                    ''SVC_URL_UAT'' \<mapsto> ''https://uat.example.com'']"

definition apiKeyEnv :: process_env where
  "apiKeyEnv = [''API_KEY_UAT'' \<mapsto> ''k1'', ''API_KEY'' \<mapsto> ''k2'']"

definition apiKeyService :: Service where
  "apiKeyService =
     (plainService ''svc'' REST)
       \<lparr>headers := Some [(''Accept'', ''application/json''), (''X-API-Key'', ''default-api-key'')],
        headerEnvVars := Some [(''X-API-Key'', Single ''API_KEY'')]\<rparr>"

definition legacyService :: Service where
  "legacyService =
     (plainService ''svc'' REST)
       \<lparr>headers := Some [(''X-API-Key'', ''default-api-key''), (''NAME_API_KEY_UAT'', ''ApkUat'')],
        headerEnvVars := Some [(''X-API-Key'', Single ''API_KEY'')]\<rparr>"

definition exampleWorld :: World where
  "exampleWorld =
     \<lparr>processEnv = Map.empty,
      catalog = Inr [(plainService ''rest-ok'' REST)
                       \<lparr>url := Some ''https://a.example.com/ok'',
                        expectedContent := Some (JObj [(''userId'', JNum 1)])\<rparr>,
                     (plainService ''soap-fault'' SOAP)\<lparr>url := Some ''https://a.example.com/ws''\<rparr>,
                     (plainService ''rest-no-url'' REST)],
      axios = (\<lambda>service. Inr \<lparr>status = 200, data = JObj [(''userId'', JNum 7)]\<rparr>),
      soapCall = (\<lambda>service. Inr (JObj [(''Fault'', JObj [(''faultcode'', JStr ''Server'')])])),
      stringifyIncludes = (\<lambda>resp content. True)\<rparr>"

text \<open>The same test with an empty pin read as no pin, as \<open>!service.environment\<close> reads it.\<close>

definition includedReadingEmptyPin :: "EnvironmentType \<Rightarrow> Service \<Rightarrow> bool" where
  "includedReadingEmptyPin env service =
     ((declaresEnvironmentUrl service env
       \<or> environment service = None
       \<or> environment service = Some []
       \<or> environment service = Some env)
      \<and> enabled service \<noteq> Some False)"

text \<open>
  The URL is built from the declared \<open>baseUrl\<close>: \<open>environmentUrls\<close> has no non-empty entry
  for the environment, \<open>urlEnvVar\<close> names no set variable, and \<open>baseUrlEnvVar\<close> names no set
  variable.
\<close>

definition usesDeclaredBase :: "process_env \<Rightarrow> EnvironmentType \<Rightarrow> Service \<Rightarrow> bool" where
  "usesDeclaredBase penv env service =
     (nonempty (case environmentUrls service of
                  None \<Rightarrow> None
                | Some urls \<Rightarrow> map_of urls env) = None
      \<and> (case nonempty (urlEnvVar service) of
            None \<Rightarrow> None
          | Some var \<Rightarrow> env_var penv var) = None
      \<and> (case nonempty (baseUrlEnvVar service) of
            None \<Rightarrow> None
          | Some var \<Rightarrow> env_var penv var) = None)"

text \<open>The descriptor \<open>hdc-v3-consulsalesforce\<close> of \<open>getExampleConfig\<close>.\<close>

definition hdcService :: Service where
  "hdcService =
     \<lparr>service_id = ''hdc-v3-consulsalesforce'', name = ''HDC V3 ConsulSalesforce'',
      service_type = REST, enabled = None, url = None,
      baseUrl = Some ''https://apigwsfclaro.claro.com.co:8070'',
      path = Some ''HDC/V3.0/Rest/ConsulSalesforc'',
      urlEnvVar = Some ''HDC_V3_CONSULSALESFORCE_URL'', baseUrlEnvVar = None,
      environmentUrls = Some
        [(''DEV'', ''https://dev-apigwsfclaro.claro.com.co:8070/HDC/V3.0/Rest/ConsulSalesforc''),
         (''QA'', ''https://qa-apigwsfclaro.claro.com.co:8070/HDC/V3.0/Rest/ConsulSalesforc''),
         (''PROD'', ''https://apigwsfclaro.claro.com.co:8070/HDC/V3.0/Rest/ConsulSalesforc'')],
      headers = Some [(''Accept'', ''application/json''), (''NAME-API-Key'', ''ApkSitSfic'')],
      headerEnvVars = Some [(''NAME-API-Key'', Single ''NAME_API_KEY'')],
      expectedContent = None, environment = None, expectedStatus = Some 200\<rparr>"

section \<open>Properties of the schema strategy\<close>

lemma typeof_not_any: "typeof v \<noteq> ''any''"
  by (cases v) simp_all

lemma validateSchema_any: "validateSchema v (SType ''any'') = Inr False"
  by (simp add: typeof_not_any)

lemma validateSchema_items_any:
  "validateSchema_items xs (SType ''any'') = Inr (xs = [])"
  by (cases xs) (simp_all add: typeof_not_any)

text \<open>
  Claim C10. For the expectation \<open>[]\<close> the derived schema is
  \<open>{type: 'array', items: {type: 'any'}}\<close>; no value at all satisfies \<open>{type: 'any'}\<close>,
  because \<open>typeof\<close> never yields \<open>'any'\<close>. So the schema strategy rejects every
  non-empty array against \<open>[]\<close>, and the only value it accepts is the empty array.
\<close>

theorem empty_array_expectation_schema:
  "generateSchema (JArr []) = SArray (SType ''any'')
   \<and> validateSchema v (SType ''any'') = Inr False
   \<and> validateSchema (JArr (x # xs)) (generateSchema (JArr [])) = Inr False
   \<and> (validateSchema w (generateSchema (JArr [])) = Inr True) = (w = JArr [])"
proof -
  have "(validateSchema w (SArray (SType ''any'')) = Inr True) = (w = JArr [])"
    by (cases w) (simp_all add: validateSchema_items_any)
  then show ?thesis
    by (simp add: validateSchema_items_any typeof_not_any)
qed

theorem empty_array_expectation_schema_witness:
  "validateSchema (JArr [JNum 1]) (generateSchema (JArr [])) = Inr False
   \<and> validateSchema (JArr []) (generateSchema (JArr [])) = Inr True"
  using empty_array_expectation_schema [of JNull "JNum 1" "[]" "JArr []"]
  by simp

lemma every_hasOwnProperty_True:
  "every_hasOwnProperty obj ks = Inr True \<Longrightarrow> set ks \<subseteq> set (keys obj)"
  by (induction ks) (auto simp: hasOwnProperty_def split: if_splits sum.splits)

lemma validateSchema_items_True:
  "(validateSchema_items xs s = Inr True) = (\<forall>x\<in>set xs. validateSchema x s = Inr True)"
  by (induction xs) (auto split: sum.splits)

lemma validateSchema_props_True:
  "validateSchema_props ks obj ps = Inr True \<Longrightarrow>
     \<forall>key\<in>set ks. \<exists>sub. map_of ps key = Some sub
        \<and> validateSchema (getprop obj key) sub = Inr True"
  by (induction ks) (auto split: option.splits sum.splits if_splits)

lemma map_of_generateSchema:
  "map_of (map (\<lambda>(key, v). (key, generateSchema v)) kvs) key
     = map_option generateSchema (map_of kvs key)"
  by (induction kvs) auto

lemma validateSchema_object_True:
  assumes "validateSchema (JObj a) (generateSchema (JObj e)) = Inr True"
  shows "set (keys e) \<subseteq> set (keys a)"
    and "length (keys a) = length (keys e)"
    and "\<forall>key\<in>set (keys a). \<exists>sub. map_of e key = Some sub
           \<and> validateSchema (getprop a key) (generateSchema sub) = Inr True"
proof -
  let ?ps = "map (\<lambda>(key, v). (key, generateSchema v)) e"
  from assms have req: "every_hasOwnProperty a (keys e) = Inr True"
    by (auto split: sum.splits if_splits)
  from assms have len: "length (keys a) = length (keys ?ps)"
    by (auto split: sum.splits if_splits)
  from assms have props: "validateSchema_props (keys a) a ?ps = Inr True"
    by (auto split: sum.splits if_splits)
  show "set (keys e) \<subseteq> set (keys a)"
    using req by (rule every_hasOwnProperty_True)
  show "length (keys a) = length (keys e)"
    using len by (simp add: keys_def)
  show "\<forall>key\<in>set (keys a). \<exists>sub. map_of e key = Some sub
           \<and> validateSchema (getprop a key) (generateSchema sub) = Inr True"
    using validateSchema_props_True [OF props] by (auto simp: map_of_generateSchema)
qed

lemma schema_rejects_extra_key:
  "validateSchema (JObj [(''a'', JNum 1), (''b'', JNum 2), (''c'', JNum 3)])
     (generateSchema (JObj [(''a'', JNum 1), (''b'', JNum 2)])) = Inr False"
  by (simp add: keys_def hasOwnProperty_def)

text \<open>
  Claim C5. An object passes the schema derived from an object expectation only if every
  key of the expectation is an own key of the object, the object has exactly as many keys
  as the schema has properties, and the value under every key of the object satisfies the
  schema derived from the expectation's value under that key. An array passes the schema
  of a non-empty array expectation exactly when each of its elements satisfies the one
  schema derived from the expectation's first element, whatever its position. The object
  \<open>{a:1,b:2,c:3}\<close> is rejected against the expectation \<open>{a:1,b:2}\<close>.
\<close>

theorem schema_strategy_exact_keys:
  "(validateSchema (JObj a) (generateSchema (JObj e)) = Inr True \<longrightarrow>
      set (keys e) \<subseteq> set (keys a)
      \<and> length (keys a) = length (keys e)
      \<and> (\<forall>key\<in>set (keys a). \<exists>sub. map_of e key = Some sub
            \<and> validateSchema (getprop a key) (generateSchema sub) = Inr True))
   \<and> (validateSchema (JArr xs) (generateSchema (JArr (e0 # es))) = Inr True)
       = (\<forall>x\<in>set xs. validateSchema x (generateSchema e0) = Inr True)
   \<and> validateSchema (JObj [(''a'', JNum 1), (''b'', JNum 2), (''c'', JNum 3)])
        (generateSchema (JObj [(''a'', JNum 1), (''b'', JNum 2)])) = Inr False"
  using validateSchema_object_True [of a e] schema_rejects_extra_key
  by (simp add: validateSchema_items_True)

theorem schema_strategy_exact_keys_witness:
  "validateSchema (JObj [(''b'', JStr ''x''), (''a'', JNum 1)])
      (generateSchema (JObj [(''a'', JNum 7), (''b'', JStr ''y'')])) = Inr True
   \<and> set (keys [(''a'', JNum 7), (''b'', JStr ''y'')])
        \<subseteq> set (keys [(''b'', JStr ''x''), (''a'', JNum 1)])
   \<and> length (keys [(''b'', JStr ''x''), (''a'', JNum 1)])
        = length (keys [(''a'', JNum 7), (''b'', JStr ''y'')])
   \<and> validateSchema (JArr [JNum 1, JNum 2]) (generateSchema (JArr [JNum 5, JStr ''z''])) = Inr True"
proof -
  have h: "validateSchema (JObj [(''b'', JStr ''x''), (''a'', JNum 1)])
      (generateSchema (JObj [(''a'', JNum 7), (''b'', JStr ''y'')])) = Inr True"
    by (simp add: keys_def hasOwnProperty_def getprop_def)
  have i: "\<forall>x\<in>set [JNum 1, JNum 2]. validateSchema x (generateSchema (JNum 5)) = Inr True"
    by simp
  from schema_strategy_exact_keys
    [of "[(''b'', JStr ''x''), (''a'', JNum 1)]" "[(''a'', JNum 7), (''b'', JStr ''y'')]"
        "[JNum 1, JNum 2]" "JNum 5" "[JStr ''z'']"] h i
  show ?thesis by blast
qed

section \<open>Properties of the structure strategy\<close>

lemma compareStructure_every_all2:
  "length xs = length ys \<Longrightarrow>
     compareStructure_every xs ys = list_all2 compareStructure xs ys"
  by (induction xs ys rule: list_induct2) simp_all

lemma compareStructure_arrays:
  "compareStructure (JArr xs) (JArr ys)
     = (length xs = length ys \<and> list_all2 compareStructure xs ys)"
  by (auto simp: compareStructure_every_all2 dest: list_all2_lengthD)

lemma sort_keys_eq_iff:
  fixes ka kb :: "string list"
  assumes "distinct ka" "distinct kb"
  shows "(sort ka = sort kb) = (set ka = set kb)"
proof
  assume "sort ka = sort kb"
  then have "set (sort ka) = set (sort kb)" by simp
  then show "set ka = set kb" by simp
next
  assume "set ka = set kb"
  with assms show "sort ka = sort kb"
    by (intro sorted_distinct_set_unique) simp_all
qed

lemma compareStructure_objects:
  assumes "distinct (keys a)" "distinct (keys b)"
  shows "compareStructure (JObj a) (JObj b)
     = (set (keys a) = set (keys b)
        \<and> (\<forall>key\<in>set (keys a). compareStructure (getprop a key) (getprop b key)))"
proof (cases "sort (keys a) = sort (keys b)")
  case True
  then have "length (sort (keys a)) = length (sort (keys b))" by simp
  with True show ?thesis
    using sort_keys_eq_iff [OF assms] by (simp add: Let_def list_all_iff del: length_sort)
next
  case False
  then show ?thesis
    using sort_keys_eq_iff [OF assms] by (simp add: Let_def)
qed

lemma compareStructure_primitives:
  "isPrimitive a \<Longrightarrow> isPrimitive b \<Longrightarrow> compareStructure a b = (typeof a = typeof b)"
  by (cases a; cases b) (simp_all add: isPrimitive_def)

lemma compareStructure_null:
  "compareStructure JNull v = (v = JNull)" "compareStructure v JNull = (v = JNull)"
  by (cases v; auto)+

lemma structure_examples:
  "compareStructure (JObj [(''a'', JNum 1), (''b'', JArr [JNum 1, JNum 2])])
                    (JObj [(''a'', JNum 99), (''b'', JArr [JNum 7, JNum 8])])"
  "\<not> compareStructure (JObj [(''a'', JNum 1), (''b'', JArr [JNum 1, JNum 2])])
                    (JObj [(''a'', JNum 1), (''b'', JArr [JNum 1, JNum 2, JNum 3])])"
  by (simp_all add: keys_def getprop_def)

text \<open>
  Claim C6 as it is worded fails: two primitives do not match whatever they are. The
  number \<open>1\<close> and the string \<open>"1"\<close> are both non-object, non-null values, and
  \<open>compareStructure\<close> rejects the pair at its first test, \<open>typeof obj1 !== typeof obj2\<close>.
\<close>

theorem structure_primitives_counterexample:
  "isPrimitive (JNum 1) \<and> isPrimitive (JStr ''1'')
   \<and> \<not> compareStructure (JNum 1) (JStr ''1'')"
  by (simp add: isPrimitive_def)

text \<open>
  Claim C6, with primitives compared by their run-time type. Two nulls match and a null
  never matches a non-null; two non-object, non-null primitives match exactly when they
  have the same \<open>typeof\<close>, whatever their values; two arrays match exactly when they have
  the same length and their elements match pairwise in order; two objects match exactly
  when they have the same set of keys and the values under each key match.
  \<open>{a:1,b:[1,2]}\<close> passes against \<open>{a:99,b:[7,8]}\<close> and fails against \<open>{a:1,b:[1,2,3]}\<close>.
\<close>

theorem structure_strategy_shapes:
  "compareStructure JNull JNull
   \<and> compareStructure JNull v = (v = JNull)
   \<and> compareStructure v JNull = (v = JNull)
   \<and> (isPrimitive p \<and> isPrimitive q \<longrightarrow> compareStructure p q = (typeof p = typeof q))
   \<and> compareStructure (JArr xs) (JArr ys)
        = (length xs = length ys \<and> list_all2 compareStructure xs ys)
   \<and> (distinct (keys a) \<and> distinct (keys b) \<longrightarrow>
        compareStructure (JObj a) (JObj b)
          = (set (keys a) = set (keys b)
             \<and> (\<forall>key\<in>set (keys a). compareStructure (getprop a key) (getprop b key))))
   \<and> compareStructure (JObj [(''a'', JNum 1), (''b'', JArr [JNum 1, JNum 2])])
                       (JObj [(''a'', JNum 99), (''b'', JArr [JNum 7, JNum 8])])
   \<and> \<not> compareStructure (JObj [(''a'', JNum 1), (''b'', JArr [JNum 1, JNum 2])])
                       (JObj [(''a'', JNum 1), (''b'', JArr [JNum 1, JNum 2, JNum 3])])"
  using compareStructure_null [of v] compareStructure_primitives [of p q]
    compareStructure_arrays [of xs ys] compareStructure_objects [of a b] structure_examples
  by simp

theorem structure_strategy_shapes_witness:
  "isPrimitive (JNum 1) \<and> isPrimitive (JNum 2) \<and> compareStructure (JNum 1) (JNum 2)
   \<and> distinct (keys [(''x'', JNum 1), (''y'', JNull)])
   \<and> distinct (keys [(''y'', JNull), (''x'', JStr ''s'')])
   \<and> \<not> compareStructure (JObj [(''x'', JNum 1), (''y'', JNull)])
                        (JObj [(''y'', JNull), (''x'', JStr ''s'')])"
proof -
  have p: "isPrimitive (JNum 1) \<and> isPrimitive (JNum 2)"
    by (simp add: isPrimitive_def)
  have d: "distinct (keys [(''x'', JNum 1), (''y'', JNull)])
     \<and> distinct (keys [(''y'', JNull), (''x'', JStr ''s'')])"
    by (simp add: keys_def)
  have n: "\<not> compareStructure (getprop [(''x'', JNum 1), (''y'', JNull)] ''x'')
                (getprop [(''y'', JNull), (''x'', JStr ''s'')] ''x'')"
    by (simp add: getprop_def)
  have k: "''x'' \<in> set (keys [(''x'', JNum 1), (''y'', JNull)])"
    by (simp add: keys_def)
  have t: "typeof (JNum 1) = typeof (JNum 2)"
    by simp
  from structure_strategy_shapes
    [of JNull "JNum 1" "JNum 2" "[]" "[]" "[(''x'', JNum 1), (''y'', JNull)]"
        "[(''y'', JNull), (''x'', JStr ''s'')]"] p d n k t
  show ?thesis by blast
qed

section \<open>Properties of validateRestResponse\<close>

lemma validateStrategies_verdict:
  "(case validateStrategies d e of Inl err \<Rightarrow> False | Inr verdict \<Rightarrow> verdict)
     = (compareStructure d e
        \<or> validateSchema d (generateSchema e) = Inr True
        \<or> (validateSchema d (generateSchema e) = Inr False
            \<and> (matchesPattern d (createPattern e)
                \<or> compareFlexible d e strategyOptions = Inr True)))"
proof (cases "validateSchema d (generateSchema e)")
  case (Inl err)
  then show ?thesis by (simp add: validateStrategies_def)
next
  case schema: (Inr schemaOk)
  show ?thesis
  proof (cases "compareFlexible d e strategyOptions")
    case (Inl err)
    with schema show ?thesis by (simp add: validateStrategies_def)
  next
    case (Inr flexibleOk)
    with schema show ?thesis by (simp add: validateStrategies_def)
  qed
qed

text \<open>
  Claim C1, as the single \<open>try\<close>/\<open>catch\<close> of the source has it. For a service with a
  declared (truthy) \<open>expectedContent\<close> and a response whose status passes the status test,
  no exception of a strategy leaves \<open>validateRestResponse\<close>: the result is a verdict. An
  exception of a strategy ends the \<open>try\<close> block, so the strategies after it are not run
  and the verdict is \<open>false\<close>. The verdict is \<open>true\<close> exactly when a strategy succeeds and
  every strategy before it, in the order structure, schema, pattern, flexible, has returned
  \<open>false\<close> without raising (the structure and pattern strategies never raise).
\<close>

theorem validateRestResponse_single_catch:
  assumes "declaredContent service = Some e"
    and "declaredStatus service = None \<or> declaredStatus service = Some (status r)"
  shows "validateRestResponse service (Some r)
     = Inr (compareStructure (data r) e
            \<or> validateSchema (data r) (generateSchema e) = Inr True
            \<or> (validateSchema (data r) (generateSchema e) = Inr False
                \<and> (matchesPattern (data r) (createPattern e)
                    \<or> compareFlexible (data r) e strategyOptions = Inr True)))"
proof -
  from assms have "validateRestResponse service (Some r)
      = Inr (case validateStrategies (data r) e of Inl err \<Rightarrow> False | Inr verdict \<Rightarrow> verdict)"
    by (cases "validateStrategies (data r) e") (auto simp: validateRestResponse_def)
  then show ?thesis
    by (simp only: validateStrategies_verdict)
qed

lemma shadow_facts:
  "\<not> compareStructure shadowActual shadowExpected"
  "validateSchema shadowActual (generateSchema shadowExpected) = Inl TypeError"
  "matchesPattern shadowActual (createPattern shadowExpected)"
  by (simp_all add: shadowActual_def shadowExpected_def keys_def getprop_def hasOwnProperty_def)

text \<open>
  Claim C1 as it is worded fails on the shadowing example: the structure strategy returns
  \<open>false\<close>, the schema strategy raises a \<open>TypeError\<close> at \<open>obj.hasOwnProperty(key)\<close>, the
  pattern strategy would succeed, and the verdict is \<open>false\<close>.
\<close>

theorem validateRestResponse_counterexample:
  "declaredContent ((plainService ''svc'' REST)\<lparr>expectedContent := Some shadowExpected\<rparr>)
      = Some shadowExpected
   \<and> \<not> compareStructure shadowActual shadowExpected
   \<and> validateSchema shadowActual (generateSchema shadowExpected) = Inl TypeError
   \<and> matchesPattern shadowActual (createPattern shadowExpected)
   \<and> validateRestResponse ((plainService ''svc'' REST)\<lparr>expectedContent := Some shadowExpected\<rparr>)
        (Some \<lparr>status = 200, data = shadowActual\<rparr>) = Inr False"
  by (simp add: shadow_facts validateRestResponse_def validateStrategies_def declaredContent_def
        declaredStatus_def plainService_def)
    (simp add: shadowExpected_def)

theorem validateRestResponse_single_catch_witness:
  "validateRestResponse ((plainService ''svc'' REST)\<lparr>expectedContent := Some shadowExpected\<rparr>)
        (Some \<lparr>status = 200, data = shadowActual\<rparr>) = Inr False
   \<and> validateRestResponse
        ((plainService ''svc'' REST)\<lparr>expectedContent := Some (JObj [(''a'', JArr [JNum 1])])\<rparr>)
        (Some \<lparr>status = 200, data = JObj [(''a'', JArr [JStr ''s''])]\<rparr>) = Inr True"
proof -
  let ?s = "(plainService ''svc'' REST)\<lparr>expectedContent := Some shadowExpected\<rparr>"
  let ?t = "(plainService ''svc'' REST)\<lparr>expectedContent := Some (JObj [(''a'', JArr [JNum 1])])\<rparr>"
  have c: "declaredContent ?s = Some shadowExpected"
    by (simp add: declaredContent_def plainService_def shadowExpected_def)
  have st: "declaredStatus ?s = None"
    by (simp add: declaredStatus_def plainService_def)
  have c': "declaredContent ?t = Some (JObj [(''a'', JArr [JNum 1])])"
    by (simp add: declaredContent_def plainService_def)
  have st': "declaredStatus ?t = None"
    by (simp add: declaredStatus_def plainService_def)
  have p: "matchesPattern (JObj [(''a'', JArr [JStr ''s''])]) (createPattern (JObj [(''a'', JArr [JNum 1])]))"
    by (simp add: keys_def getprop_def)
  have q: "validateSchema (JObj [(''a'', JArr [JStr ''s''])]) (generateSchema (JObj [(''a'', JArr [JNum 1])])) = Inr False"
    by (simp add: keys_def getprop_def hasOwnProperty_def)
  from validateRestResponse_single_catch [of ?s shadowExpected "\<lparr>status = 200, data = shadowActual\<rparr>"]
    validateRestResponse_single_catch [of ?t "JObj [(''a'', JArr [JNum 1])]"
       "\<lparr>status = 200, data = JObj [(''a'', JArr [JStr ''s''])]\<rparr>"]
    c st c' st' p q shadow_facts
  show ?thesis by simp
qed

section \<open>Properties of validateSoapResponse\<close>

lemma readprop_obj: "readprop (JObj kvs) key = getprop kvs key"
  by (simp add: readprop_def)

text \<open>
  Claim C2, with the four spellings the source tests. A SOAP response object is rejected
  whenever one of its top-level properties \<open>Fault\<close>, \<open>fault\<close>, \<open>error\<close> or \<open>Error\<close> has a
  truthy value, whatever the \<open>expectedContent\<close> test says; in particular a body
  \<open>{Fault: {...}}\<close> always fails.
\<close>

theorem validateSoapResponse_fault:
  assumes "key \<in> {''Fault'', ''fault'', ''error'', ''Error''}"
    and "truthy (getprop kvs key)"
  shows "validateSoapResponse stringify_includes service (JObj kvs) = Inr False
     \<and> validateSoapResponse stringify_includes service (JObj ((''Fault'', JObj f) # rest)) = Inr False"
proof -
  from assms have "truthy (readprop (JObj kvs) ''Fault'') \<or> truthy (readprop (JObj kvs) ''fault'')
      \<or> truthy (readprop (JObj kvs) ''error'') \<or> truthy (readprop (JObj kvs) ''Error'')"
    by (auto simp: readprop_obj)
  then have a: "validateSoapResponse stringify_includes service (JObj kvs) = Inr False"
    unfolding validateSoapResponse_def by (simp split: option.splits)
  have "truthy (readprop (JObj ((''Fault'', JObj f) # rest)) ''Fault'')"
    by (simp add: readprop_obj getprop_def)
  then have b: "validateSoapResponse stringify_includes service (JObj ((''Fault'', JObj f) # rest)) = Inr False"
    unfolding validateSoapResponse_def by (simp split: option.splits)
  from a b show ?thesis by simp
qed

text \<open>
  Claim C2 as it is worded fails: the key \<open>FAULT\<close> is \<open>fault\<close> without regard to case, and
  a response that carries a fault under it is accepted; so is a response whose \<open>error\<close>
  key holds \<open>null\<close>.
\<close>

theorem validateSoapResponse_counterexample:
  "isFaultIndicatorKey ''FAULT''
   \<and> validateSoapResponse (\<lambda>response content. True) (plainService ''svc'' SOAP)
        (JObj [(''FAULT'', JObj [(''faultstring'', JStr ''Server'')])]) = Inr True
   \<and> isFaultIndicatorKey ''error''
   \<and> validateSoapResponse (\<lambda>response content. True) (plainService ''svc'' SOAP)
        (JObj [(''error'', JNull), (''result'', JStr ''ok'')]) = Inr True"
  by (simp add: isFaultIndicatorKey_def toLowerCase_def toLowerCase_char_def validateSoapResponse_def
        declaredContent_def plainService_def readprop_def getprop_def)

theorem validateSoapResponse_fault_witness:
  "validateSoapResponse (\<lambda>response content. True)
      ((plainService ''svc'' SOAP)\<lparr>expectedContent := Some (JStr ''United States'')\<rparr>)
      (JObj [(''result'', JStr ''United States''), (''Fault'', JObj [(''faultcode'', JStr ''Server'')])])
    = Inr False"
proof -
  have t: "truthy (getprop [(''result'', JStr ''United States''),
      (''Fault'', JObj [(''faultcode'', JStr ''Server'')])] ''Fault'')"
    by (simp add: getprop_def)
  have k: "''Fault'' \<in> {''Fault'', ''fault'', ''error'', ''Error''}"
    by simp
  from validateSoapResponse_fault [OF k t] show ?thesis by simp
qed

section \<open>Properties of the catalog filter\<close>

lemma service_id_processService [simp]:
  "service_id (processService penv env service) = service_id service"
  by (simp add: processService_def)

lemma isIncluded_reading:
  "isIncluded env service = includedReadingEmptyPin env service"
  by (cases "environment service")
     (auto simp: isIncluded_def includedReadingEmptyPin_def hasEnvironmentUrl_def
        declaresEnvironmentUrl_def nonempty_def keys_def split: option.splits)

text \<open>
  Claim C3, with the pin read by truthiness. For every catalog and every requested
  environment, the output of the resolver is the resolved form of exactly the descriptors
  that pass the inclusion test for the current environment, in catalog order: a
  descriptor appears in the output if and only if it declares an \<open>environmentUrls\<close> entry
  for the environment, or declares no pin or an empty one, or is pinned to the
  environment, and its \<open>enabled\<close> flag is not explicitly \<open>false\<close>. Resolution keeps the id,
  so the ids of the output are the ids of those descriptors.
\<close>

theorem resolver_filter:
  "processEnvironmentVariables penv catalogue requested
     = map (processService penv (currentEnvironment penv requested))
         (filter (includedReadingEmptyPin (currentEnvironment penv requested)) catalogue)
   \<and> map service_id (processEnvironmentVariables penv catalogue requested)
     = map service_id
         (filter (includedReadingEmptyPin (currentEnvironment penv requested)) catalogue)"
proof -
  have "isIncluded (currentEnvironment penv requested)
      = includedReadingEmptyPin (currentEnvironment penv requested)"
    by (rule ext) (rule isIncluded_reading)
  then show ?thesis
    by (simp add: processEnvironmentVariables_def Let_def comp_def)
qed

text \<open>
  Claim C3 as it is worded fails for a descriptor whose pin is the empty string: it
  declares a pin, the pin is not \<open>UAT\<close>, it has no \<open>environmentUrls\<close>, and the output for
  \<open>UAT\<close> contains it, because \<open>!service.environment\<close> holds for the empty string.
\<close>

theorem resolver_filter_counterexample:
  "\<not> includedForEnvironment ''UAT'' ((plainService ''empty-pin'' REST)\<lparr>environment := Some []\<rparr>)
   \<and> map service_id
       (processEnvironmentVariables Map.empty
          [(plainService ''empty-pin'' REST)\<lparr>environment := Some []\<rparr>] (Some ''UAT''))
     = [''empty-pin'']"
  by (simp add: includedForEnvironment_def declaresEnvironmentUrl_def plainService_def
        processEnvironmentVariables_def currentEnvironment_def nonempty_def isIncluded_def
        hasEnvironmentUrl_def)

theorem resolver_filter_witness:
  "map service_id (processEnvironmentVariables Map.empty catalogueExample (Some ''UAT''))
     = [''pinned-dev-with-uat-url'', ''unpinned'', ''pinned-uat'']"
proof -
  have e: "currentEnvironment Map.empty (Some ''UAT'') = ''UAT''"
    by (simp add: currentEnvironment_def nonempty_def)
  have f: "map service_id (filter (includedReadingEmptyPin ''UAT'') catalogueExample)
      = [''pinned-dev-with-uat-url'', ''unpinned'', ''pinned-uat'']"
    by (simp add: catalogueExample_def plainService_def includedReadingEmptyPin_def
          declaresEnvironmentUrl_def)
  from resolver_filter [of Map.empty catalogueExample "Some ''UAT''"]
  have "map service_id (processEnvironmentVariables Map.empty catalogueExample (Some ''UAT''))
      = map service_id
          (filter (includedReadingEmptyPin (currentEnvironment Map.empty (Some ''UAT'')))
             catalogueExample)"
    by (rule conjunct2)
  with e f show ?thesis by (simp only:)
qed

section \<open>Properties of the URL precedence\<close>

lemma resolveUrl_environment_entry:
  assumes "environmentUrls service = Some urls"
    and "map_of urls env = Some candidate"
    and "candidate \<noteq> []"
  shows "resolveUrl penv env service
     = Some (let base = (case env_var penv candidate of Some v \<Rightarrow> v | None \<Rightarrow> candidate)
             in case nonempty (path service) of
                  Some p \<Rightarrow> joinBaseAndPath base p
                | None \<Rightarrow> base)"
  using assms by (simp add: resolveUrl_def nonempty_def Let_def split: option.splits)

text \<open>
  Claim C4, for a non-empty entry. When \<open>environmentUrls\<close> holds a non-empty candidate for
  the current environment, the resolved URL is built from that candidate alone: the value
  of the environment variable named like the candidate when one is set (to a non-empty
  value), else the candidate itself, joined with the declared path when there is one.
  It never comes from \<open>urlEnvVar\<close>: setting, changing or removing \<open>urlEnvVar\<close> leaves the
  resolved URL as it is.
\<close>

theorem url_precedence:
  assumes "environmentUrls service = Some urls"
    and "map_of urls env = Some candidate"
    and "candidate \<noteq> []"
  shows "url (processService penv env service)
           = Some (let base = (case env_var penv candidate of Some v \<Rightarrow> v | None \<Rightarrow> candidate)
                   in case nonempty (path service) of
                        Some p \<Rightarrow> joinBaseAndPath base p
                      | None \<Rightarrow> base)
         \<and> url (processService penv env (service\<lparr>urlEnvVar := other\<rparr>))
           = url (processService penv env service)"
proof -
  have "environmentUrls (service\<lparr>urlEnvVar := other\<rparr>) = Some urls"
    using assms(1) by simp
  from resolveUrl_environment_entry [OF this assms(2,3), of penv]
    resolveUrl_environment_entry [OF assms, of penv]
  show ?thesis by (simp add: processService_def)
qed

theorem url_precedence_witness:
  "url (processService precedenceEnv ''UAT'' precedenceService) = Some ''https://uat.example.com/v1/ping''
   \<and> url (processService precedenceEnv ''DEV'' precedenceService) = Some ''https://dev.example.com/v1/ping''"
proof -
  have u: "environmentUrls precedenceService
      = Some [(''UAT'', ''SVC_URL_UAT''), (''DEV'', ''https://dev.example.com/'')]"
    by (simp add: precedenceService_def plainService_def)
  have p: "nonempty (path precedenceService) = Some ''/v1/ping''"
    by (simp add: precedenceService_def plainService_def nonempty_def)
  have e1: "env_var precedenceEnv ''SVC_URL_UAT'' = Some ''https://uat.example.com''"
    by (simp add: precedenceEnv_def env_var_def nonempty_def)
  have e2: "env_var precedenceEnv ''https://dev.example.com/'' = None"
    by (simp add: precedenceEnv_def env_var_def nonempty_def)
  have j1: "joinBaseAndPath ''https://uat.example.com'' ''/v1/ping'' = ''https://uat.example.com/v1/ping''"
    by (simp add: joinBaseAndPath_def endsWithSlash_def)
  have j2: "joinBaseAndPath ''https://dev.example.com/'' ''/v1/ping'' = ''https://dev.example.com/v1/ping''"
    by (simp add: joinBaseAndPath_def endsWithSlash_def)
  from url_precedence [OF u, of "''UAT''" "''SVC_URL_UAT''" precedenceEnv]
    url_precedence [OF u, of "''DEV''" "''https://dev.example.com/''" precedenceEnv]
    p e1 e2 j1 j2
  show ?thesis by simp
qed

text \<open>
  Claim C4 as it is worded fails for an entry that is the empty string: the descriptor has
  an \<open>environmentUrls\<close> entry for the environment (the filter counts it), the first branch
  reads the entry as falsy, and the URL comes from \<open>urlEnvVar\<close>.
\<close>

theorem url_precedence_counterexample:
  "hasEnvironmentUrl
      ((plainService ''svc'' REST)
         \<lparr>environmentUrls := Some [(''UAT'', [])], urlEnvVar := Some ''SVC_URL''\<rparr>) ''UAT''
   \<and> env_var [''SVC_URL'' \<mapsto> ''https://complete.example.com/x''] ''SVC_URL''
        = Some ''https://complete.example.com/x''
   \<and> url (processService [''SVC_URL'' \<mapsto> ''https://complete.example.com/x''] ''UAT''
        ((plainService ''svc'' REST)
           \<lparr>environmentUrls := Some [(''UAT'', [])], urlEnvVar := Some ''SVC_URL''\<rparr>))
        = Some ''https://complete.example.com/x''"
  by (simp add: hasEnvironmentUrl_def keys_def env_var_def nonempty_def processService_def
        resolveUrl_def plainService_def)

section \<open>Properties of the base and path join\<close>

lemma joinBaseAndPath_plain:
  "b \<noteq> [] \<Longrightarrow> last b \<noteq> CHR ''/'' \<Longrightarrow> p \<noteq> [] \<Longrightarrow> hd p \<noteq> CHR ''/'' \<Longrightarrow>
     joinBaseAndPath b p = b @ ''/'' @ p"
  by (cases p) (simp_all add: joinBaseAndPath_def endsWithSlash_def)

lemma env_var_not_empty: "env_var penv var \<noteq> Some []"
  by (simp add: env_var_def nonempty_def split: option.splits)

lemma joinBaseAndPath_leading_slash:
  "p \<noteq> [] \<Longrightarrow> hd p \<noteq> CHR ''/'' \<Longrightarrow>
     joinBaseAndPath u (CHR ''/'' # p) = joinBaseAndPath u p"
  by (cases p) (simp_all add: joinBaseAndPath_def)

lemma joinBaseAndPath_trailing_slash:
  "b \<noteq> [] \<Longrightarrow> last b \<noteq> CHR ''/'' \<Longrightarrow>
     joinBaseAndPath (b @ ''/'') q = joinBaseAndPath b q"
  by (simp add: joinBaseAndPath_def endsWithSlash_def)

lemma resolveUrl_same:
  assumes "b \<noteq> []" "last b \<noteq> CHR ''/''" "p \<noteq> []" "hd p \<noteq> CHR ''/''"
  shows "resolveUrl penv env (service\<lparr>baseUrl := Some (b @ ''/''), path := Some (''/'' @ p)\<rparr>)
     = resolveUrl penv env (service\<lparr>baseUrl := Some b, path := Some p\<rparr>)"
  using assms
  by (auto simp: resolveUrl_def nonempty_def Let_def joinBaseAndPath_leading_slash
        joinBaseAndPath_trailing_slash env_var_not_empty split: option.splits)

lemma resolveUrl_declared_base:
  assumes "usesDeclaredBase penv env service"
    and "b \<noteq> []" "p \<noteq> []"
  shows "resolveUrl penv env (service\<lparr>baseUrl := Some b, path := Some p\<rparr>)
     = Some (joinBaseAndPath b p)"
  using assms
  by (simp add: resolveUrl_def usesDeclaredBase_def nonempty_def Let_def split: option.splits)

text \<open>
  Claim C8, for a base and a path that are not empty and carry no slash of their own at
  the joint. For every descriptor, every non-empty base \<open>b\<close> that does not end with a slash
  and every non-empty path \<open>p\<close> that does not start with one, \<open>baseUrl = b + "/"\<close> with
  \<open>path = "/" + p\<close> and \<open>baseUrl = b\<close> with \<open>path = p\<close> resolve to the same URL; and that URL is
  \<open>b + "/" + p\<close> whenever the URL is built from the declared base, that is, whenever
  \<open>environmentUrls\<close>, \<open>urlEnvVar\<close> and \<open>baseUrlEnvVar\<close> take no effect.
\<close>

theorem base_path_join_slashes:
  assumes "b \<noteq> []" "last b \<noteq> CHR ''/''" "p \<noteq> []" "hd p \<noteq> CHR ''/''"
  shows "url (processService penv env (service\<lparr>baseUrl := Some (b @ ''/''), path := Some (''/'' @ p)\<rparr>))
           = url (processService penv env (service\<lparr>baseUrl := Some b, path := Some p\<rparr>))
         \<and> (usesDeclaredBase penv env service \<longrightarrow>
              url (processService penv env
                     (service\<lparr>baseUrl := Some (b @ ''/''), path := Some (''/'' @ p)\<rparr>))
                = Some (b @ ''/'' @ p)
              \<and> url (processService penv env (service\<lparr>baseUrl := Some b, path := Some p\<rparr>))
                = Some (b @ ''/'' @ p))"
proof -
  have same: "resolveUrl penv env (service\<lparr>baseUrl := Some (b @ ''/''), path := Some (''/'' @ p)\<rparr>)
      = resolveUrl penv env (service\<lparr>baseUrl := Some b, path := Some p\<rparr>)"
    using assms by (rule resolveUrl_same)
  have declared: "usesDeclaredBase penv env service \<Longrightarrow>
      resolveUrl penv env (service\<lparr>baseUrl := Some b, path := Some p\<rparr>) = Some (b @ ''/'' @ p)"
    using assms by (simp add: resolveUrl_declared_base joinBaseAndPath_plain)
  from same declared show ?thesis
    by (simp add: processService_def)
qed

theorem base_path_join_slashes_witness:
  "usesDeclaredBase Map.empty ''SIT'' hdcService
   \<and> url (processService Map.empty ''SIT'' hdcService)
     = Some ''https://apigwsfclaro.claro.com.co:8070/HDC/V3.0/Rest/ConsulSalesforc''
   \<and> url (processService Map.empty ''SIT''
        (hdcService\<lparr>baseUrl := Some ''https://apigwsfclaro.claro.com.co:8070/'',
                    path := Some ''/HDC/V3.0/Rest/ConsulSalesforc''\<rparr>))
     = Some ''https://apigwsfclaro.claro.com.co:8070/HDC/V3.0/Rest/ConsulSalesforc''"
proof -
  have d: "usesDeclaredBase Map.empty ''SIT'' hdcService"
    by (simp add: usesDeclaredBase_def hdcService_def nonempty_def env_var_def)
  have s: "hdcService\<lparr>baseUrl := Some ''https://apigwsfclaro.claro.com.co:8070'',
                      path := Some ''HDC/V3.0/Rest/ConsulSalesforc''\<rparr> = hdcService"
    by (simp add: hdcService_def)
  have c: "''https://apigwsfclaro.claro.com.co:8070'' \<noteq> []"
    "last ''https://apigwsfclaro.claro.com.co:8070'' \<noteq> CHR ''/''"
    "''HDC/V3.0/Rest/ConsulSalesforc'' \<noteq> []"
    "hd ''HDC/V3.0/Rest/ConsulSalesforc'' \<noteq> CHR ''/''"
    by simp_all
  from base_path_join_slashes [OF c, of Map.empty "''SIT''" hdcService] d s
  show ?thesis by simp
qed

text \<open>
  Claim C8 as it is worded fails in four ways, each a pair of descriptors the claim says
  resolve alike: an empty path (the base alone is used verbatim), an empty base (the path
  alone is used verbatim), a base that already ends with a slash and a path that already
  starts with one (only one slash is stripped on each side).
\<close>

theorem base_path_join_counterexample:
  "url (processService Map.empty ''SIT''
      ((plainService ''svc'' REST)\<lparr>baseUrl := Some (''https://a.com'' @ ''/''), path := Some (''/'' @ [])\<rparr>))
     = Some ''https://a.com/''
   \<and> url (processService Map.empty ''SIT''
      ((plainService ''svc'' REST)\<lparr>baseUrl := Some ''https://a.com'', path := Some []\<rparr>))
     = Some ''https://a.com''
   \<and> url (processService Map.empty ''SIT''
      ((plainService ''svc'' REST)\<lparr>baseUrl := Some ([] @ ''/''), path := Some (''/'' @ ''x'')\<rparr>))
     = Some ''/x''
   \<and> url (processService Map.empty ''SIT''
      ((plainService ''svc'' REST)\<lparr>baseUrl := Some [], path := Some ''x''\<rparr>))
     = Some ''x''
   \<and> url (processService Map.empty ''SIT''
      ((plainService ''svc'' REST)\<lparr>baseUrl := Some (''https://a.com/'' @ ''/''), path := Some (''/'' @ ''x'')\<rparr>))
     = Some ''https://a.com//x''
   \<and> url (processService Map.empty ''SIT''
      ((plainService ''svc'' REST)\<lparr>baseUrl := Some ''https://a.com/'', path := Some ''x''\<rparr>))
     = Some ''https://a.com/x''
   \<and> url (processService Map.empty ''SIT''
      ((plainService ''svc'' REST)\<lparr>baseUrl := Some (''https://a.com'' @ ''/''), path := Some (''/'' @ ''/x'')\<rparr>))
     = Some ''https://a.com//x''
   \<and> url (processService Map.empty ''SIT''
      ((plainService ''svc'' REST)\<lparr>baseUrl := Some ''https://a.com'', path := Some ''/x''\<rparr>))
     = Some ''https://a.com/x''"
  by (simp add: processService_def resolveUrl_def plainService_def nonempty_def env_var_def
        joinBaseAndPath_def endsWithSlash_def)

section \<open>Properties of the header resolution\<close>

lemma processHeaderEntry_single:
  assumes "\<not> legacyHeaderDeclared service env hdrs"
    and "legacyNamedVariable penv env service headerKey = None"
  shows "processHeaderEntry penv env service (headerKey, Single var) hdrs
     = (case env_var penv (var @ ''_'' @ env) of
          Some v \<Rightarrow> AList.update (effectiveHeaderName penv env headerKey) v hdrs
        | None \<Rightarrow>
            (case env_var penv var of
               Some v \<Rightarrow> AList.update (effectiveHeaderName penv env headerKey) v hdrs
             | None \<Rightarrow> hdrs))"
  using assms
  by (simp add: processHeaderEntry_def effectiveHeaderName_def Let_def split: option.splits)

lemma apiKey_example:
  "headers (processService apiKeyEnv ''UAT'' apiKeyService)
     = Some [(''Accept'', ''application/json''), (''X-API-Key'', ''k1'')]"
  by (simp add: processService_def resolveHeaders_def processHeaderEntry_def apiKeyService_def
        apiKeyEnv_def plainService_def env_var_def nonempty_def legacyHeaderDeclared_def
        legacyNamedVariable_def)

text \<open>
  Claim C7, for an iteration that takes neither legacy \<open>NAME_API_KEY_<ENV>\<close> branch. For an
  entry of \<open>headerEnvVars\<close> whose value is the single name \<open>N\<close>, the iteration first probes
  the variable \<open>N_<ENV>\<close> and assigns its value to the header when it is set, and only
  otherwise probes \<open>N\<close>; when neither is set the headers stay as they were. With
  \<open>API_KEY_UAT = "k1"\<close>, \<open>API_KEY = "k2"\<close> and the environment \<open>UAT\<close>, the header declared
  with the name \<open>API_KEY\<close> resolves to \<open>"k1"\<close>.
\<close>

theorem header_env_specific_override:
  assumes "\<not> legacyHeaderDeclared service env hdrs"
    and "legacyNamedVariable penv env service headerKey = None"
  shows "processHeaderEntry penv env service (headerKey, Single var) hdrs
           = (case env_var penv (var @ ''_'' @ env) of
                Some v \<Rightarrow> AList.update (effectiveHeaderName penv env headerKey) v hdrs
              | None \<Rightarrow>
                  (case env_var penv var of
                     Some v \<Rightarrow> AList.update (effectiveHeaderName penv env headerKey) v hdrs
                   | None \<Rightarrow> hdrs))
         \<and> (env_var penv (var @ ''_'' @ env) = Some specific \<longrightarrow>
              map_of (processHeaderEntry penv env service (headerKey, Single var) hdrs)
                (effectiveHeaderName penv env headerKey) = Some specific)
         \<and> headers (processService apiKeyEnv ''UAT'' apiKeyService)
             = Some [(''Accept'', ''application/json''), (''X-API-Key'', ''k1'')]"
  using processHeaderEntry_single [OF assms, of var] apiKey_example
  by (simp add: update_Some_unfold)

text \<open>
  Claim C7 as it is worded fails when the static headers hold a \<open>NAME_API_KEY_UAT\<close> entry:
  with the same two variables and the same environment, the iteration for the header
  \<open>X-API-Key\<close> takes the first legacy branch, which rewrites the \<open>NAME_API_KEY_UAT\<close> header
  and returns; \<open>X-API-Key\<close> keeps its default and never gets \<open>"k1"\<close>.
\<close>

theorem header_env_specific_override_counterexample:
  "headerEnvVars legacyService = Some [(''X-API-Key'', Single ''API_KEY'')]
   \<and> env_var apiKeyEnv ''API_KEY_UAT'' = Some ''k1''
   \<and> env_var apiKeyEnv ''API_KEY'' = Some ''k2''
   \<and> headers (processService apiKeyEnv ''UAT'' legacyService)
       = Some [(''X-API-Key'', ''default-api-key''), (''NAME_API_KEY_UAT'', ''API_KEY_UAT'')]"
  by (simp add: processService_def resolveHeaders_def processHeaderEntry_def legacyService_def
        apiKeyEnv_def plainService_def env_var_def nonempty_def legacyHeaderDeclared_def
        legacyNamedVariable_def)

theorem header_env_specific_override_witness:
  "\<not> legacyHeaderDeclared apiKeyService ''UAT''
       [(''Accept'', ''application/json''), (''X-API-Key'', ''default-api-key'')]
   \<and> legacyNamedVariable apiKeyEnv ''UAT'' apiKeyService ''X-API-Key'' = None
   \<and> processHeaderEntry apiKeyEnv ''UAT'' apiKeyService (''X-API-Key'', Single ''API_KEY'')
       [(''Accept'', ''application/json''), (''X-API-Key'', ''default-api-key'')]
       = [(''Accept'', ''application/json''), (''X-API-Key'', ''k1'')]"
proof -
  have n: "\<not> legacyHeaderDeclared apiKeyService ''UAT''
       [(''Accept'', ''application/json''), (''X-API-Key'', ''default-api-key'')]"
    by (simp add: legacyHeaderDeclared_def nonempty_def)
  have m: "legacyNamedVariable apiKeyEnv ''UAT'' apiKeyService ''X-API-Key'' = None"
    by (simp add: legacyNamedVariable_def apiKeyService_def plainService_def)
  have e: "env_var apiKeyEnv (''API_KEY'' @ ''_'' @ ''UAT'') = Some ''k1''"
    by (simp add: apiKeyEnv_def env_var_def nonempty_def)
  have k: "effectiveHeaderName apiKeyEnv ''UAT'' ''X-API-Key'' = ''X-API-Key''"
    by (simp add: effectiveHeaderName_def apiKeyEnv_def env_var_def nonempty_def)
  from header_env_specific_override [OF n m, of "''API_KEY''" "''k1''"] n m e k
  show ?thesis by simp
qed

section \<open>Properties of the batch summary\<close>

lemma checkAllServices_summary:
  assumes "checkAllServices world serviceId requested disabledServicesList = Inr results"
  shows "total (summary results) = int (length (services results))"
    and "success (summary results)
           = int (length (filter (\<lambda>s. result_status s = Success) (services results)))"
    and "failed (summary results) = total (summary results) - success (summary results)"
  using assms
  by (auto simp: checkAllServices_def Let_def split: sum.splits if_splits)

text \<open>
  Claim C9. In every batch result \<open>checkAllServices\<close> returns, \<open>summary.total\<close> is the number
  of rows, \<open>summary.success\<close> is the number of rows whose status is \<open>success\<close>, and
  \<open>summary.success + summary.failed = summary.total\<close>.
\<close>

theorem summary_consistent:
  assumes "checkAllServices world serviceId requested disabledServicesList = Inr results"
  shows "total (summary results) = int (length (services results))
         \<and> success (summary results)
             = int (length (filter (\<lambda>s. result_status s = Success) (services results)))
         \<and> success (summary results) + failed (summary results) = total (summary results)"
  using checkAllServices_summary [OF assms] by simp

lemma exampleWorld_rows:
  "map result_status
     (case checkAllServices exampleWorld None (Some ''UAT'') (\<lambda>i. None) of
        Inr results \<Rightarrow> services results | Inl e \<Rightarrow> [])
   = [Success, Failed, Failed]"
  by (simp add: checkAllServices_def getServiceConfig_def processEnvironmentVariables_def
        currentEnvironment_def nonempty_def exampleWorld_def plainService_def isIncluded_def
        hasEnvironmentUrl_def processService_def resolveUrl_def resolveHeaders_def
        checkRestServices_def checkRestService_def checkSoapServices_def checkSoapService_def
        makeRestRequest_def makeSoapRequest_def validateRestResponse_def declaredStatus_def
        declaredContent_def validateStrategies_def validateSoapResponse_def readprop_def
        getprop_def keys_def failedRow_def env_var_def)

lemma count_by_status:
  "length (filter (\<lambda>s. result_status s = Success) rows)
     = length (filter (\<lambda>st. st = Success) (map result_status rows))"
  by (induction rows) simp_all

theorem summary_consistent_witness:
  "(case checkAllServices exampleWorld None (Some ''UAT'') (\<lambda>i. None) of
      Inl e \<Rightarrow> False
    | Inr results \<Rightarrow>
        map result_status (services results) = [Success, Failed, Failed]
        \<and> total (summary results) = 3
        \<and> success (summary results) = 1
        \<and> failed (summary results) = 2)"
proof (cases "checkAllServices exampleWorld None (Some ''UAT'') (\<lambda>i. None)")
  case (Inl e)
  with exampleWorld_rows show ?thesis by simp
next
  case (Inr results)
  with exampleWorld_rows
  have rows: "map result_status (services results) = [Success, Failed, Failed]"
    by simp
  then have len: "length (services results) = 3"
    by (metis length_map length_Cons list.size(3) numeral_3_eq_3)
  from rows have cnt: "length (filter (\<lambda>s. result_status s = Success) (services results)) = 1"
    by (simp add: count_by_status)
  from summary_consistent [OF Inr] len cnt rows Inr
  show ?thesis by simp
qed


end
